theory Spec2Isabelle
  imports Complex_Main
begin

section \<open>Expressions\<close>

text \<open>
  The module \<^verbatim>\<open>mathics/builtin/numeric.py\<close> works on the expression classes of
  \<^verbatim>\<open>mathics.core.expression\<close>: the atoms \<^verbatim>\<open>Symbol\<close>, \<^verbatim>\<open>String\<close>, \<^verbatim>\<open>Integer\<close>,
  \<^verbatim>\<open>Rational\<close>, \<^verbatim>\<open>MachineReal\<close>, \<^verbatim>\<open>PrecisionReal\<close> and \<^verbatim>\<open>Complex\<close>, and the compound
  \<^verbatim>\<open>Expression\<close> with a head and a list of leaves. A machine real carries the value of
  its double and a precision real the value of its arbitrary-precision float together
  with its precision in bits; both values are rationals (signed zeros, infinities and
  NaN are not represented). Symbol names are fully qualified, as in the source
  (\<^verbatim>\<open>System`List\<close>).
\<close>

datatype expr =
    Symbol string
  | String string
  | Integer int
  | Rational rat
  | MachineReal rat
  | PrecisionReal rat nat
  | Complex expr expr
  | Expression expr "expr list"

text \<open>
  Modelled from the spec: the accessors of the expression classes
  (\<^verbatim>\<open>get_name\<close>, \<^verbatim>\<open>get_head_name\<close>, \<^verbatim>\<open>get_lookup_name\<close>, \<^verbatim>\<open>is_atom\<close>, \<^verbatim>\<open>same\<close> and the
  \<^verbatim>\<open>isinstance\<close> tests) live in \<^verbatim>\<open>mathics.core.expression\<close>, which is not among the
  sources. An expression is a head with arguments, atoms have no arguments, the
  resolvable name of an expression is its symbol name or that of its head, and two
  expressions are the same when they are syntactically identical.
\<close>

fun get_name :: "expr \<Rightarrow> string" where
  "get_name (Symbol n) = n"
| "get_name _ = []"

fun is_atom :: "expr \<Rightarrow> bool" where
  "is_atom (Expression h ls) = False"
| "is_atom _ = True"

fun get_head_name :: "expr \<Rightarrow> string" where
  "get_head_name (Expression h ls) = get_name h"
| "get_head_name (Symbol n) = ''System`Symbol''"
| "get_head_name (String s) = ''System`String''"
| "get_head_name (Integer i) = ''System`Integer''"
| "get_head_name (Rational r) = ''System`Rational''"
| "get_head_name (MachineReal x) = ''System`Real''"
| "get_head_name (PrecisionReal x p) = ''System`Real''"
| "get_head_name (Complex re im) = ''System`Complex''"

fun get_lookup_name :: "expr \<Rightarrow> string" where
  "get_lookup_name (Symbol n) = n"
| "get_lookup_name (Expression h ls) = get_lookup_name h"
| "get_lookup_name _ = []"

fun is_MachineReal :: "expr \<Rightarrow> bool" where
  "is_MachineReal (MachineReal x) = True"
| "is_MachineReal _ = False"

fun is_Number :: "expr \<Rightarrow> bool" where
  "is_Number (Integer i) = True"
| "is_Number (Rational r) = True"
| "is_Number (MachineReal x) = True"
| "is_Number (PrecisionReal x p) = True"
| "is_Number (Complex re im) = True"
| "is_Number _ = False"

definition same :: "expr \<Rightarrow> expr \<Rightarrow> bool" where
  "same a b = (a = b)"

text \<open>
  \<^verbatim>\<open>Expression('N', expr, prec)\<close>: a name given as a Python string, here and in
  \<^verbatim>\<open>Symbol('True')\<close>, is the symbol of that name in \<^verbatim>\<open>System`\<close>.
\<close>

definition N_request :: "expr \<Rightarrow> expr \<Rightarrow> expr" where
  "N_request e prec = Expression (Symbol ''System`N'') [e, prec]"

section \<open>The evaluation the module runs in\<close>

text \<open>
  Every function of the module receives the \<^verbatim>\<open>evaluation\<close> object and hands it to the
  rewriting engine, the definitions store and the number classes. None of them is among
  the sources, so they are parameters here: a record of operations over a state \<open>'s\<close>
  (the session: definitions, messages printed so far). An operation that may change the
  session returns the new state.

  \<^item> \<open>get_float_value prec s\<close> is \<^verbatim>\<open>prec.get_float_value(n_evaluation=evaluation)\<close>;
  \<^item> \<open>message sym tag args s\<close> is \<^verbatim>\<open>evaluation.message(sym, tag, *args)\<close>, whose
    Python result is \<^verbatim>\<open>None\<close>;
  \<^item> \<open>get_value name pos pattern s\<close> is
    \<^verbatim>\<open>evaluation.definitions.get_value(name, pos, pattern, evaluation)\<close>;
  \<^item> \<open>evaluate e s\<close> is \<^verbatim>\<open>e.evaluate(evaluation)\<close>;
  \<^item> \<open>get_attributes h s\<close> is \<^verbatim>\<open>h.get_attributes(evaluation.definitions)\<close>;
  \<^item> \<open>name_attributes n s\<close> is \<^verbatim>\<open>evaluation.definitions.get_attributes(n)\<close>;
  \<^item> \<open>number_round e d\<close> is \<^verbatim>\<open>e.round(d)\<close> of a number \<open>e\<close>;
  \<^item> \<open>numeric_constants\<close> is the set of the symbols, besides \<^verbatim>\<open>Pi\<close>, that are classified
    as numeric constants;
  \<^item> \<open>none_leaf\<close> is the leaf the \<^verbatim>\<open>Expression\<close> constructor makes of a Python \<^verbatim>\<open>None\<close>.

  The operations are total: a run in which the engine aborts is outside the model (the
  module catches nothing, so such a run ends in the engine's own abort).
\<close>

record 's engine =
  get_float_value :: "expr \<Rightarrow> 's \<Rightarrow> rat option \<times> 's"
  message :: "string \<Rightarrow> string \<Rightarrow> expr list \<Rightarrow> 's \<Rightarrow> 's"
  get_value :: "string \<Rightarrow> string \<Rightarrow> expr \<Rightarrow> 's \<Rightarrow> expr option \<times> 's"
  evaluate :: "expr \<Rightarrow> 's \<Rightarrow> expr \<times> 's"
  get_attributes :: "expr \<Rightarrow> 's \<Rightarrow> string set"
  name_attributes :: "string \<Rightarrow> 's \<Rightarrow> string set"
  number_round :: "expr \<Rightarrow> rat option \<Rightarrow> expr"
  numeric_constants :: "string set"
  none_leaf :: "expr"

section \<open>N\<close>

text \<open>
  The first block of \<^verbatim>\<open>N.apply_other\<close>: \<open>d\<close> is \<^verbatim>\<open>None\<close> for the symbol
  \<^verbatim>\<open>MachinePrecision\<close>, else the float the precision resolves to; the outer \<open>None\<close> is
  the case \<^verbatim>\<open>d is None\<close> after \<^verbatim>\<open>get_float_value\<close>, which ends the call with the message.
\<close>

definition requested_d :: "'s engine \<Rightarrow> expr \<Rightarrow> 's \<Rightarrow> rat option option \<times> 's" where
  "requested_d E prec s =
     (if get_name prec = ''System`MachinePrecision'' then (Some None, s)
      else (case get_float_value E prec s of
              (None, s') \<Rightarrow> (None, s')
            | (Some d, s') \<Rightarrow> (Some (Some d), s')))"

text \<open>The choice of \<^verbatim>\<open>eval_range\<close> from the attributes of the head.\<close>

definition eval_range :: "string set \<Rightarrow> nat \<Rightarrow> nat list" where
  "eval_range attributes n =
     (if ''System`NHoldAll'' \<in> attributes then []
      else if ''System`NHoldFirst'' \<in> attributes then [1..<n]
      else if ''System`NHoldRest'' \<in> attributes then (if n > 0 then [0] else [])
      else [0..<n])"

text \<open>
  The loop \<^verbatim>\<open>for index in eval_range: leaves[index] = Expression('N', leaves[index],
  prec).evaluate(evaluation)\<close> on the copy of the leaves. Every index of an
  \<open>eval_range\<close> is below the number of leaves.
\<close>

fun eval_leaves :: "'s engine \<Rightarrow> expr \<Rightarrow> nat list \<Rightarrow> expr list \<Rightarrow> 's \<Rightarrow> expr list \<times> 's" where
  "eval_leaves E prec [] leaves s = (leaves, s)"
| "eval_leaves E prec (i # is) leaves s =
     (case evaluate E (N_request (leaves ! i) prec) s of
        (v, s') \<Rightarrow> eval_leaves E prec is (leaves[i := v]) s')"

text \<open>
  \<^verbatim>\<open>N.apply_other\<close>, the rule \<^verbatim>\<open>N[expr_, prec_]\<close>. The result \<open>None\<close> is Python's
  \<^verbatim>\<open>None\<close>: the rule gives no result and the call \<^verbatim>\<open>N[expr, prec]\<close> stays as it is.
  \<open>apply_other_leaves\<close> is the list comprehension over the leaves of a \<^verbatim>\<open>List\<close> or
  \<^verbatim>\<open>Rule\<close>, left to right. Only a compound expression has the head name \<^verbatim>\<open>System`List\<close>
  or \<^verbatim>\<open>System`Rule\<close> (lemma \<open>list_head_compound\<close>), so the atom branch under that test is
  never taken; \<^verbatim>\<open>expr.is_atom()\<close> is the match on the constructor.
\<close>

fun apply_other :: "'s engine \<Rightarrow> expr \<Rightarrow> expr \<Rightarrow> 's \<Rightarrow> expr option \<times> 's"
  and apply_other_leaves :: "'s engine \<Rightarrow> expr list \<Rightarrow> expr \<Rightarrow> 's \<Rightarrow> expr list \<times> 's" where
  "apply_other E expr prec s =
     (case requested_d E prec s of
        (None, s1) \<Rightarrow> (None, message E ''N'' ''precbd'' [prec] s1)
      | (Some d, s1) \<Rightarrow>
          if get_head_name expr = ''System`List'' \<or> get_head_name expr = ''System`Rule'' then
            (case expr of
               Expression h ls \<Rightarrow>
                 (case apply_other_leaves E ls prec s1 of
                    (ls', s2) \<Rightarrow> (Some (Expression h ls'), s2))
             | _ \<Rightarrow> (Some expr, s1))
          else if is_MachineReal expr then (Some expr, s1)
          else if is_Number expr then (Some (number_round E expr d), s1)
          else
            (let name = get_lookup_name expr;
                 nexpr = N_request expr prec;
                 (result, s2) =
                   (if name \<noteq> [] then get_value E name ''System`NValues'' nexpr s1
                    else (None, s1))
             in case result of
                  Some r \<Rightarrow>
                    if \<not> same r nexpr then
                      (case evaluate E (N_request r prec) s2 of (r', s3) \<Rightarrow> (Some r', s3))
                    else (Some r, s2)
                | None \<Rightarrow>
                    (case expr of
                       Expression h ls \<Rightarrow>
                         (let attributes = get_attributes E h s2;
                              (head, s3) = evaluate E (N_request h prec) s2;
                              (leaves, s4) =
                                eval_leaves E prec (eval_range attributes (length ls)) ls s3
                          in (Some (Expression head leaves), s4))
                     | _ \<Rightarrow> (Some expr, s2))))"
| "apply_other_leaves E [] prec s = ([], s)"
| "apply_other_leaves E (leaf # ls) prec s =
     (case apply_other E leaf prec s of
        (r, s') \<Rightarrow>
          (case apply_other_leaves E ls prec s' of
             (rs, s'') \<Rightarrow> ((case r of None \<Rightarrow> none_leaf E | Some v \<Rightarrow> v) # rs, s'')))"

section \<open>Precision\<close>

text \<open>
  Modelled from the spec: \<^verbatim>\<open>is_inexact\<close>, \<^verbatim>\<open>get_precision\<close>, \<^verbatim>\<open>to_sympy().is_zero\<close> and the
  test \<^verbatim>\<open>MachineNumberQ\<close> live in other modules of the repository. A real has a precision
  (a machine real the machine precision, a precision real its own), a complex that of
  its inexact part (the smaller one of two), and no other expression has one; a value
  is inexact when it has a precision; a machine number is a machine real, or a complex
  with a machine-real part. The conversion \<^verbatim>\<open>dps\<close> from bits to decimal
  digits and the constant \<^verbatim>\<open>machine_precision\<close> of \<^verbatim>\<open>mathics.core.numbers\<close> are
  parameters.
\<close>

record numbers =
  dps :: "nat \<Rightarrow> nat"
  machine_precision :: nat

fun is_zero :: "expr \<Rightarrow> bool" where
  "is_zero (Integer i) = (i = 0)"
| "is_zero (Rational r) = (r = 0)"
| "is_zero (MachineReal x) = (x = 0)"
| "is_zero (PrecisionReal x p) = (x = 0)"
| "is_zero (Complex re im) = (is_zero re \<and> is_zero im)"
| "is_zero _ = False"

fun get_precision :: "numbers \<Rightarrow> expr \<Rightarrow> nat option" where
  "get_precision C (MachineReal x) = Some (machine_precision C)"
| "get_precision C (PrecisionReal x p) = Some p"
| "get_precision C (Complex re im) =
     (case (get_precision C re, get_precision C im) of
        (None, q) \<Rightarrow> q
      | (Some p, None) \<Rightarrow> Some p
      | (Some p, Some q) \<Rightarrow> Some (min p q))"
| "get_precision C _ = None"

definition is_inexact :: "numbers \<Rightarrow> expr \<Rightarrow> bool" where
  "is_inexact C z = (get_precision C z \<noteq> None)"

fun MachineNumberQ :: "expr \<Rightarrow> bool" where
  "MachineNumberQ (MachineReal x) = True"
| "MachineNumberQ (Complex re im) = (is_MachineReal re \<or> is_MachineReal im)"
| "MachineNumberQ _ = False"

text \<open>\<^verbatim>\<open>Real(n)\<close> of a Python integer, with no precision given: a machine real.\<close>

definition Real :: "int \<Rightarrow> expr" where
  "Real n = MachineReal (of_int n)"

text \<open>\<^verbatim>\<open>Precision.apply\<close>, the rule \<^verbatim>\<open>Precision[z_]\<close>.\<close>

definition Precision_apply :: "numbers \<Rightarrow> expr \<Rightarrow> expr" where
  "Precision_apply C z =
     (if \<not> is_inexact C z then Symbol ''System`Infinity''
      else if is_zero z then Real 0
      else (case get_precision C z of
              Some p \<Rightarrow> Real (int (dps C p))
            | None \<Rightarrow> Symbol ''System`Infinity''))"

text \<open>
  \<^verbatim>\<open>Precision[z]\<close> as the class defines it: the entry of \<^verbatim>\<open>rules\<close> for a machine number,
  whose pattern \<^verbatim>\<open>z_?MachineNumberQ\<close> is more specific than \<^verbatim>\<open>z_\<close> and is tried first
  (the docstring pins \<^verbatim>\<open>Precision[0.0] = MachinePrecision\<close>), then \<^verbatim>\<open>apply\<close>.
\<close>

definition Precision :: "numbers \<Rightarrow> expr \<Rightarrow> expr" where
  "Precision C z =
     (if MachineNumberQ z then Symbol ''System`MachinePrecision'' else Precision_apply C z)"

section \<open>Round\<close>










section \<open>Chop\<close>

text \<open>
  \<^verbatim>\<open>to_python\<close> of a number is its value as a Python number: the integer itself, the
  double of a machine real, and for a rational or a precision real the double nearest
  to it, \<open>float_of\<close> (a parameter). Any other expression has none.
\<close>

fun to_python :: "(rat \<Rightarrow> rat) \<Rightarrow> expr \<Rightarrow> rat option" where
  "to_python float_of (Integer i) = Some (of_int i)"
| "to_python float_of (Rational r) = Some (float_of r)"
| "to_python float_of (MachineReal x) = Some x"
| "to_python float_of (PrecisionReal x p) = Some (float_of x)"
| "to_python float_of _ = None"

text \<open>The test \<^verbatim>\<open>-delta < e.to_python() < delta\<close>.\<close>

definition is_within :: "(rat \<Rightarrow> rat) \<Rightarrow> rat \<Rightarrow> expr \<Rightarrow> bool" where
  "is_within float_of delta e =
     (case to_python float_of e of None \<Rightarrow> False | Some v \<Rightarrow> - delta < v \<and> v < delta)"

text \<open>The default of the parameter \<^verbatim>\<open>delta\<close>: the double \<^verbatim>\<open>10.0 ** (-10.0)\<close>, exactly.\<close>

definition default_delta :: rat where
  "default_delta = 7737125245533627 / 2 ^ 86"

text \<open>
  \<^verbatim>\<open>chop(expr, delta)\<close>. The calls \<^verbatim>\<open>chop(expr.head)\<close> and \<^verbatim>\<open>chop(leaf)\<close> of the source give
  no \<^verbatim>\<open>delta\<close>, so they run with the default. Modelled from the spec: the constructor
  \<^verbatim>\<open>Complex(real, imag)\<close> is not among the sources; the result is always a complex value,
  also when both parts collapse.
\<close>

fun chop :: "(rat \<Rightarrow> rat) \<Rightarrow> rat \<Rightarrow> expr \<Rightarrow> expr" where
  "chop float_of delta (MachineReal x) =
     (if is_within float_of delta (MachineReal x) then Integer 0 else MachineReal x)"
| "chop float_of delta (PrecisionReal x p) =
     (if is_within float_of delta (PrecisionReal x p) then Integer 0 else PrecisionReal x p)"
| "chop float_of delta (Complex re im) =
     Complex (if is_within float_of delta re then Integer 0 else re)
             (if is_within float_of delta im then Integer 0 else im)"
| "chop float_of delta (Expression h ls) =
     Expression (chop float_of default_delta h) (map (chop float_of default_delta) ls)"
| "chop float_of delta e = e"

text \<open>
  \<^verbatim>\<open>Chop.apply\<close>, the rule \<^verbatim>\<open>Chop[expr_, delta_:(10^-10)]\<close>: the tolerance is evaluated and
  read as a float; none, or a negative one, ends the call with the message \<^verbatim>\<open>tolnn\<close>.
  \<open>delta_float\<close> is \<^verbatim>\<open>delta.evaluate(evaluation).get_float_value()\<close>.
\<close>

definition Chop_apply ::
  "'s engine \<Rightarrow> (rat \<Rightarrow> rat) \<Rightarrow> (expr \<Rightarrow> 's \<Rightarrow> rat option \<times> 's) \<Rightarrow> expr \<Rightarrow> expr \<Rightarrow> 's \<Rightarrow> expr option \<times> 's" where
  "Chop_apply E float_of delta_float expr delta s =
     (case delta_float delta s of
        (None, s1) \<Rightarrow> (None, message E ''Chop'' ''tolnn'' [] s1)
      | (Some d, s1) \<Rightarrow>
          if d < 0 then (None, message E ''Chop'' ''tolnn'' [] s1)
          else (Some (chop float_of d expr), s1))"

section \<open>NumericQ\<close>

text \<open>
  Modelled from the spec: \<^verbatim>\<open>is_numeric\<close> of the atom classes lives in
  \<^verbatim>\<open>mathics.core.expression\<close>, which is not among the sources. An atomic numeric value is
  numeric. A symbol is numeric when it is classified as a numeric constant: \<^verbatim>\<open>Pi\<close> is one
  (the docstring of \<^verbatim>\<open>NumericQ\<close> has \<^verbatim>\<open>NumericQ[Sqrt[Pi]] = True\<close>, and \<^verbatim>\<open>Sqrt[Pi]\<close> is
  \<^verbatim>\<open>Power[Pi, 1/2]\<close>, whose leaves \<^verbatim>\<open>test\<close> asks), and which other symbols are is the
  parameter \<open>numeric_constants\<close>. Any other atom (a string, any other symbol) is not
  numeric. \<^verbatim>\<open>test\<close> never asks it of a compound expression.
\<close>

fun is_numeric :: "'s engine \<Rightarrow> expr \<Rightarrow> bool" where
  "is_numeric E (Symbol n) = (n = ''System`Pi'' \<or> n \<in> numeric_constants E)"
| "is_numeric E (String x) = False"
| "is_numeric E (Integer i) = True"
| "is_numeric E (Rational r) = True"
| "is_numeric E (MachineReal x) = True"
| "is_numeric E (PrecisionReal x p) = True"
| "is_numeric E (Complex re im) = True"
| "is_numeric E (Expression h ls) = False"

text \<open>The local function \<^verbatim>\<open>test\<close> of \<^verbatim>\<open>NumericQ.apply\<close>, and the rule \<^verbatim>\<open>NumericQ[expr_]\<close>.\<close>

fun test :: "'s engine \<Rightarrow> 's \<Rightarrow> expr \<Rightarrow> bool" where
  "test E s (Expression h ls) =
     (''System`NumericFunction'' \<in> name_attributes E (get_name h) s \<and> list_all (test E s) ls)"
| "test E s a = is_numeric E a"

definition NumericQ_apply :: "'s engine \<Rightarrow> expr \<Rightarrow> 's \<Rightarrow> expr" where
  "NumericQ_apply E expr s = (if test E s expr then Symbol ''System`True'' else Symbol ''System`False'')"

section \<open>IntegerDigits\<close>

text \<open>
  Modelled from the spec: \<^verbatim>\<open>convert_int_to_digit_list\<close> of \<^verbatim>\<open>mathics.core.numbers\<close> is not
  among the sources. By the docstring of \<^verbatim>\<open>IntegerDigits\<close> it returns the list of the
  base-\<open>base\<close> digits of the integer, most significant first, the sign discarded, and
  \<^verbatim>\<open>[0]\<close> for zero. \<open>digit_list\<close> is its loop on a natural number; both are used with a
  base above one only.
\<close>

function digit_list :: "nat \<Rightarrow> nat \<Rightarrow> int list" where
  "digit_list x base =
     (if x = 0 \<or> base < 2 then [] else digit_list (x div base) base @ [int (x mod base)])"
  by pat_completeness auto
termination
  by (relation "measure fst") auto

declare digit_list.simps [simp del]

definition convert_int_to_digit_list :: "int \<Rightarrow> int \<Rightarrow> int list" where
  "convert_int_to_digit_list x base =
     (if x = 0 then [0] else digit_list (nat \<bar>x\<bar>) (nat base))"

text \<open>
  \<^verbatim>\<open>IntegerDigits.apply\<close>, the rule \<^verbatim>\<open>IntegerDigits[n_, base_]\<close>, with its keyword
  parameter \<^verbatim>\<open>nr_elements\<close>. The slice \<^verbatim>\<open>digits[-nr_elements:]\<close> is taken with
  \<^verbatim>\<open>1 <= nr_elements <= len(digits)\<close>: the last \<^verbatim>\<open>nr_elements\<close> digits.
\<close>

definition IntegerDigits_apply ::
  "'s engine \<Rightarrow> expr \<Rightarrow> expr \<Rightarrow> nat option \<Rightarrow> 's \<Rightarrow> expr option \<times> 's" where
  "IntegerDigits_apply E n base nr_elements s =
     (case n of
        Integer nv \<Rightarrow>
          (case base of
             Integer bv \<Rightarrow>
               if \<not> bv > 1 then (None, message E ''IntegerDigits'' ''ibase'' [base] s)
               else if nr_elements = Some 0 then (Some (Expression (Symbol ''System`List'') []), s)
               else
                 (let digits = convert_int_to_digit_list nv bv;
                      digits' =
                        (case nr_elements of
                           None \<Rightarrow> digits
                         | Some nr \<Rightarrow>
                             if length digits \<ge> nr then drop (length digits - nr) digits
                             else replicate (nr - length digits) 0 @ digits)
                  in (Some (Expression (Symbol ''System`List'') (map Integer digits')), s))
           | _ \<Rightarrow> (None, message E ''IntegerDigits'' ''ibase'' [base] s))
      | _ \<Rightarrow>
          (None, message E ''IntegerDigits'' ''int''
                   [Expression (Symbol ''System`IntegerDigits'') [n, base]] s))"

text \<open>\<^verbatim>\<open>IntegerDigits.apply_len\<close>, the rule \<^verbatim>\<open>IntegerDigits[n_, base_, length_]\<close>.\<close>

definition IntegerDigits_apply_len ::
  "'s engine \<Rightarrow> expr \<Rightarrow> expr \<Rightarrow> expr \<Rightarrow> 's \<Rightarrow> expr option \<times> 's" where
  "IntegerDigits_apply_len E n base len s =
     (case len of
        Integer lv \<Rightarrow>
          if \<not> lv \<ge> 0 then (None, message E ''IntegerDigits'' ''intnn'' [] s)
          else IntegerDigits_apply E n base (Some (nat lv)) s
      | _ \<Rightarrow> (None, message E ''IntegerDigits'' ''intnn'' [] s))"

section \<open>Hash\<close>

text \<open>
  The digest algorithms are those of Python's \<^verbatim>\<open>hashlib\<close> and \<^verbatim>\<open>zlib\<close>; they are parameters:
  \<open>hashlib_hexdigest a bs\<close> is the hexadecimal digest of the bytes \<open>bs\<close> under the
  \<^verbatim>\<open>hashlib\<close> constructor \<open>a\<close>, \<open>zlib_adler32\<close> and \<open>zlib_crc32\<close> are the two checksums.
  A hash object collects the bytes it is given by \<^verbatim>\<open>update\<close>; \<^verbatim>\<open>user_hash\<close> is the list of
  byte strings an expression feeds it, in order.
\<close>

type_synonym bytes = "char list"

datatype hashlib_name = md5 | sha1 | sha224 | sha256 | sha384 | sha512

datatype hash_func = ZLibHash_adler32 | ZLibHash_crc32 | Hashlib hashlib_name

record digests =
  hashlib_hexdigest :: "hashlib_name \<Rightarrow> bytes \<Rightarrow> string"
  zlib_adler32 :: "bytes \<Rightarrow> int"
  zlib_crc32 :: "bytes \<Rightarrow> int"

text \<open>The table \<^verbatim>\<open>Hash._supported_hashes\<close>.\<close>

definition supported_hashes :: "(string \<times> hash_func) list" where
  "supported_hashes =
     [(''Adler32'', ZLibHash_adler32),
      (''CRC32'', ZLibHash_crc32),
      (''MD5'', Hashlib md5),
      (''SHA'', Hashlib sha1),
      (''SHA224'', Hashlib sha224),
      (''SHA256'', Hashlib sha256),
      (''SHA384'', Hashlib sha384),
      (''SHA512'', Hashlib sha512)]"

text \<open>
  Python's \<^verbatim>\<open>format(n, 'x')\<close> and \<^verbatim>\<open>int(s, 16)\<close> on lower-case hexadecimal numerals with an
  optional sign; \<open>int16\<close> is \<open>None\<close> where Python raises \<^verbatim>\<open>ValueError\<close>.
\<close>

definition hex_digit :: "nat \<Rightarrow> char" where
  "hex_digit d = ''0123456789abcdef'' ! (d mod 16)"

function hex_of_nat :: "nat \<Rightarrow> string" where
  "hex_of_nat n = (if n < 16 then [hex_digit n] else hex_of_nat (n div 16) @ [hex_digit (n mod 16)])"
  by pat_completeness auto
termination
  by (relation "measure id") auto

declare hex_of_nat.simps [simp del]

definition format_x :: "int \<Rightarrow> string" where
  "format_x n = (if n < 0 then CHR ''-'' # hex_of_nat (nat (- n)) else hex_of_nat (nat n))"

definition digit_of_hex :: "char \<Rightarrow> nat option" where
  "digit_of_hex c =
     map_of (zip ''0123456789abcdef'' [0..<16] @ zip ''ABCDEF'' [10..<16]) c"

fun nat16 :: "nat \<Rightarrow> string \<Rightarrow> nat option" where
  "nat16 acc [] = Some acc"
| "nat16 acc (c # cs) =
     (case digit_of_hex c of None \<Rightarrow> None | Some d \<Rightarrow> nat16 (16 * acc + d) cs)"

definition int16 :: "string \<Rightarrow> int option" where
  "int16 s =
     (case s of
        [] \<Rightarrow> None
      | c # cs \<Rightarrow>
          if c = CHR ''-'' then (if cs = [] then None else map_option (\<lambda>n. - int n) (nat16 0 cs))
          else map_option int (nat16 0 s))"

text \<open>\<^verbatim>\<open>h.hexdigest()\<close> of the hash object \<open>h\<close> after the updates \<open>chunks\<close>.\<close>

fun hexdigest :: "digests \<Rightarrow> hash_func \<Rightarrow> bytes list \<Rightarrow> string" where
  "hexdigest D ZLibHash_adler32 chunks = format_x (zlib_adler32 D (concat chunks))"
| "hexdigest D ZLibHash_crc32 chunks = format_x (zlib_crc32 D (concat chunks))"
| "hexdigest D (Hashlib a) chunks = hashlib_hexdigest D a (concat chunks)"

text \<open>
  \<^verbatim>\<open>Hash.compute(user_hash, py_hashtype)\<close>. The result \<open>Inr None\<close> is the bare \<^verbatim>\<open>return\<close> for
  an unknown name (``in order to return original Expression''): the rule gives no result
  and the call stays as it is. \<open>Inl ValueError\<close> is the exception \<^verbatim>\<open>int\<close> raises on a digest
  that is no hexadecimal numeral.
\<close>

datatype py_error = ValueError

definition compute :: "digests \<Rightarrow> bytes list \<Rightarrow> string \<Rightarrow> py_error + expr option" where
  "compute D user_hash py_hashtype =
     (case map_of supported_hashes py_hashtype of
        None \<Rightarrow> Inr None
      | Some hash_func \<Rightarrow>
          (case int16 (hexdigest D hash_func user_hash) of
             None \<Rightarrow> Inl ValueError
           | Some v \<Rightarrow> Inr (Some (Integer v))))"

text \<open>
  \<^verbatim>\<open>Hash.apply\<close>, the rule \<^verbatim>\<open>Hash[expr_, hashtype_String]\<close>. It receives the \<^verbatim>\<open>evaluation\<close>
  and does nothing with it: the class has no table of messages and \<^verbatim>\<open>compute\<close>, a static
  method, is not given the \<^verbatim>\<open>evaluation\<close>. The session is returned as it was.
\<close>

definition Hash_apply ::
  "digests \<Rightarrow> (expr \<Rightarrow> bytes list) \<Rightarrow> expr \<Rightarrow> string \<Rightarrow> 's \<Rightarrow> (py_error + expr option) \<times> 's" where
  "Hash_apply D user_hash expr hashtype s = (compute D (user_hash expr) hashtype, s)"

section \<open>A small session\<close>

text \<open>
  A concrete engine for the examples below, after the docstring of \<^verbatim>\<open>N\<close>. Its state is
  the list of the messages printed. In this session
  \<^item> \<^verbatim>\<open>N[a] = 10.9\<close> and \<^verbatim>\<open>N[e] = 6\<close> have been assigned;
  \<^item> \<^verbatim>\<open>f\<close> has the attribute \<^verbatim>\<open>NHoldAll\<close>;
  \<^item> \<^verbatim>\<open>m\<close> has the attribute \<^verbatim>\<open>NHoldAll\<close> too, and \<^verbatim>\<open>N[m] = h\<close> has been assigned;
  \<^item> \<^verbatim>\<open>g\<close> has the attribute \<^verbatim>\<open>NHoldRest\<close> and \<^verbatim>\<open>k\<close> the attribute \<^verbatim>\<open>NHoldFirst\<close>;
  \<^item> \<^verbatim>\<open>N[c, p_] := N[c, p]\<close> has been assigned;
  \<^item> \<^verbatim>\<open>Plus\<close> has the attribute \<^verbatim>\<open>NumericFunction\<close>, and \<^verbatim>\<open>Power\<close> too;
  \<^item> besides \<^verbatim>\<open>Pi\<close>, the symbol \<^verbatim>\<open>E\<close> is a numeric constant.
  The engine evaluates a request \<^verbatim>\<open>N[x, MachinePrecision]\<close> for an integer or one of these
  symbols to its numeric value, a request for any other atom to the atom, and leaves
  every other expression as it is.
\<close>

type_synonym session = "(string \<times> string \<times> expr list) list"

definition MachinePrecision :: expr where
  "MachinePrecision = Symbol ''System`MachinePrecision''"

definition mk_List :: "expr list \<Rightarrow> expr" where
  "mk_List ls = Expression (Symbol ''System`List'') ls"

definition demo_float_value :: "expr \<Rightarrow> rat option" where
  "demo_float_value prec =
     (case prec of
        Integer i \<Rightarrow> Some (of_int i)
      | Rational r \<Rightarrow> Some r
      | MachineReal x \<Rightarrow> Some x
      | PrecisionReal x p \<Rightarrow> Some x
      | _ \<Rightarrow> None)"

definition demo_nvalues :: "string \<Rightarrow> expr \<Rightarrow> expr option" where
  "demo_nvalues name pattern =
     (if name = ''Global`a'' \<and> pattern = N_request (Symbol ''Global`a'') MachinePrecision
        then Some (MachineReal (109 / 10))
      else if name = ''Global`e'' \<and> pattern = N_request (Symbol ''Global`e'') MachinePrecision
        then Some (Integer 6)
      else if name = ''Global`m'' \<and> pattern = N_request (Symbol ''Global`m'') MachinePrecision
        then Some (Symbol ''Global`h'')
      else if name = ''Global`c''
        then (case pattern of
                Expression nh [x, p] \<Rightarrow>
                  if nh = Symbol ''System`N'' \<and> x = Symbol ''Global`c'' then Some pattern else None
              | _ \<Rightarrow> None)
      else None)"

definition demo_evaluate :: "expr \<Rightarrow> expr" where
  "demo_evaluate e =
     (case e of
        Expression nh [x, p] \<Rightarrow>
          if nh = Symbol ''System`N'' \<and> p = MachinePrecision then
            (case x of
               Integer i \<Rightarrow> MachineReal (of_int i)
             | Symbol n \<Rightarrow>
                 if n = ''Global`a'' then MachineReal (109 / 10)
                 else if n = ''Global`e'' then MachineReal 6
                 else if n = ''Global`m'' then Symbol ''Global`h''
                 else if n = ''Global`c'' then e
                 else x
             | Expression h ls \<Rightarrow> e
             | _ \<Rightarrow> x)
          else e
      | _ \<Rightarrow> e)"

definition demo_attributes :: "string \<Rightarrow> string set" where
  "demo_attributes name =
     (if name = ''Global`f'' \<or> name = ''Global`m'' then {''System`NHoldAll''}
      else if name = ''Global`g'' then {''System`NHoldRest''}
      else if name = ''Global`k'' then {''System`NHoldFirst''}
      else if name = ''System`Plus'' \<or> name = ''System`Power'' then {''System`NumericFunction''}
      else {})"

definition demo_round :: "expr \<Rightarrow> rat option \<Rightarrow> expr" where
  "demo_round e d =
     (case (e, d) of
        (Integer i, None) \<Rightarrow> MachineReal (of_int i)
      | (Rational r, None) \<Rightarrow> MachineReal r
      | (PrecisionReal x p, None) \<Rightarrow> MachineReal x
      | _ \<Rightarrow> e)"

definition demo :: "session engine" where
  "demo =
     \<lparr> get_float_value = (\<lambda>prec s. (demo_float_value prec, s)),
       message = (\<lambda>sym tag args s. s @ [(sym, tag, args)]),
       get_value = (\<lambda>name pos pattern s.
                      (if pos = ''System`NValues'' then demo_nvalues name pattern else None, s)),
       evaluate = (\<lambda>e s. (demo_evaluate e, s)),
       get_attributes = (\<lambda>h s. demo_attributes (get_name h)),
       name_attributes = (\<lambda>n s. demo_attributes n),
       number_round = demo_round,
       numeric_constants = {''System`E''},
       none_leaf = Symbol ''System`Null'' \<rparr>"

text \<open>The same session without the override rules.\<close>

definition demo_no_nvalues :: "session engine" where
  "demo_no_nvalues = demo \<lparr> get_value := (\<lambda>name pos pattern s. (None, s)) \<rparr>"

text \<open>A session in which a rule for \<^verbatim>\<open>N\<close> of every list has been stored with \<^verbatim>\<open>List\<close>.\<close>

definition demo_list_rule :: "session engine" where
  "demo_list_rule =
     demo \<lparr> get_value := (\<lambda>name pos pattern s.
                (if name = ''System`List'' \<and> pos = ''System`NValues'' then Some (Integer 7) else None, s)) \<rparr>"

text \<open>
  The expressions built from machine reals by \<^verbatim>\<open>List\<close> and \<^verbatim>\<open>Rule\<close> alone: the ones on which
  \<^verbatim>\<open>N\<close> asks nothing of the engine.
\<close>

fun machine_numeric :: "expr \<Rightarrow> bool" where
  "machine_numeric (MachineReal x) = True"
| "machine_numeric (Expression h ls) =
     ((h = Symbol ''System`List'' \<or> h = Symbol ''System`Rule'') \<and> list_all machine_numeric ls)"
| "machine_numeric _ = False"

text \<open>
  The number a list of digits stands for in a base, most significant digit first: the
  reading of ``base-\<open>b\<close> digits'' in the statements about \<^verbatim>\<open>IntegerDigits\<close>.
\<close>

definition base_value :: "int \<Rightarrow> int list \<Rightarrow> int" where
  "base_value b ds = foldl (\<lambda>acc d. acc * b + d) 0 ds"

text \<open>Stand-ins for the digest algorithms and the conversion to decimal digits.\<close>

definition demo_digests :: digests where
  "demo_digests =
     \<lparr> hashlib_hexdigest = (\<lambda>a bs. hex_of_nat (length bs)),
       zlib_adler32 = (\<lambda>bs. int (length bs)),
       zlib_crc32 = (\<lambda>bs. int (length bs)) \<rparr>"

definition demo_numbers :: numbers where
  "demo_numbers = \<lparr> dps = (\<lambda>p. max 1 (p * 3 div 10)), machine_precision = 53 \<rparr>"

section \<open>Properties of N\<close>

declare apply_other.simps [simp del]

text \<open>
  C7. A precision argument that is not the symbol \<^verbatim>\<open>MachinePrecision\<close> and that does not
  resolve to a float (\<^verbatim>\<open>get_float_value\<close> gives \<^verbatim>\<open>None\<close>) ends \<^verbatim>\<open>N[expr, prec]\<close> with the
  message \<^verbatim>\<open>precbd\<close> about \<open>prec\<close> and with no result, for every expression \<open>expr\<close>: the
  call stays unevaluated and nothing else is done to the session.
\<close>

theorem N_bad_precision:
  assumes "get_name prec \<noteq> ''System`MachinePrecision''"
    and "get_float_value E prec s = (None, s1)"
  shows "apply_other E expr prec s = (None, message E ''N'' ''precbd'' [prec] s1)"
  using assms by (simp add: apply_other.simps requested_d_def)

theorem N_bad_precision_witness:
  "get_name (String ''abc'') \<noteq> ''System`MachinePrecision''
   \<and> get_float_value demo (String ''abc'') [] = (None, [])
   \<and> apply_other demo (Symbol ''System`Pi'') (String ''abc'') []
       = (None, [(''N'', ''precbd'', [String ''abc''])])"
proof -
  have a: "get_name (String ''abc'') \<noteq> ''System`MachinePrecision''" by simp
  have b: "get_float_value demo (String ''abc'') [] = (None, [])"
    by (simp add: demo_def demo_float_value_def)
  show ?thesis
    using a b N_bad_precision [OF a b, of "Symbol ''System`Pi''"] by (simp add: demo_def)
qed

text \<open>Only a compound expression is threaded over as a list or a rule.\<close>

lemma list_head_compound:
  "get_head_name e = ''System`List'' \<or> get_head_name e = ''System`Rule'' \<Longrightarrow> \<not> is_atom e"
  by (cases e) simp_all

lemma eval_leaves_length: "length (fst (eval_leaves E prec idx ls s)) = length ls"
  by (induction idx arbitrary: ls s) (simp_all split: prod.splits)

lemma eval_leaves_untouched:
  "i \<notin> set idx \<Longrightarrow> fst (eval_leaves E prec idx ls s) ! i = ls ! i"
  by (induction idx arbitrary: ls s) (auto split: prod.splits)

lemma eval_leaves_selected:
  "distinct idx \<Longrightarrow> \<forall>j \<in> set idx. j < length ls \<Longrightarrow> i \<in> set idx \<Longrightarrow>
     \<exists>t. fst (eval_leaves E prec idx ls s) ! i = fst (evaluate E (N_request (ls ! i) prec) t)"
proof (induction idx arbitrary: ls s)
  case Nil
  then show ?case by simp
next
  case (Cons j js)
  obtain v s' where ev: "evaluate E (N_request (ls ! j) prec) s = (v, s')"
    by (cases "evaluate E (N_request (ls ! j) prec) s")
  have step: "eval_leaves E prec (j # js) ls s = eval_leaves E prec js (ls[j := v]) s'"
    by (simp add: ev)
  show ?case
  proof (cases "i = j")
    case True
    with Cons.prems have "i \<notin> set js" "j < length ls" by auto
    then have "fst (eval_leaves E prec js (ls[j := v]) s') ! i = v"
      using True by (simp add: eval_leaves_untouched)
    with ev True step show ?thesis by (metis fst_conv)
  next
    case False
    with Cons.prems have "i \<in> set js" "distinct js" "\<forall>k \<in> set js. k < length (ls[j := v])"
      by auto
    from Cons.IH [OF this(2) this(3) this(1)]
    obtain t where "fst (eval_leaves E prec js (ls[j := v]) s') ! i
                      = fst (evaluate E (N_request (ls[j := v] ! i) prec) t)" by blast
    with False step show ?thesis by (metis nth_list_update_neq)
  qed
qed

lemma eval_range_distinct: "distinct (eval_range A n)"
  by (simp add: eval_range_def)

lemma eval_range_bound: "j \<in> set (eval_range A n) \<Longrightarrow> j < n"
  by (auto simp: eval_range_def split: if_splits)

lemma eval_range_member:
  "i < n \<Longrightarrow> i \<in> set (eval_range A n) \<longleftrightarrow>
     (if ''System`NHoldAll'' \<in> A then False
      else if ''System`NHoldFirst'' \<in> A then i \<noteq> 0
      else if ''System`NHoldRest'' \<in> A then i = 0
      else True)"
  by (auto simp: eval_range_def)

text \<open>
  C1, as the claim states it, fails twice in the small session. The rule of \<^verbatim>\<open>c\<close> answers
  the request \<^verbatim>\<open>N[c, MachinePrecision]\<close> with the request itself; \<^verbatim>\<open>apply_other\<close> then
  returns that request, where without any rule it returns \<^verbatim>\<open>c\<close>: the identical
  replacement is not treated as no override. And for a list, whose resolvable name is
  \<^verbatim>\<open>System`List\<close>, a rule stored for that name is never asked: the list is threaded over.
\<close>

theorem N_identical_override_counterexample:
  "get_value demo (get_lookup_name (Symbol ''Global`c'')) ''System`NValues''
     (N_request (Symbol ''Global`c'') MachinePrecision) []
     = (Some (N_request (Symbol ''Global`c'') MachinePrecision), [])
   \<and> apply_other demo (Symbol ''Global`c'') MachinePrecision []
       = (Some (N_request (Symbol ''Global`c'') MachinePrecision), [])
   \<and> apply_other demo_no_nvalues (Symbol ''Global`c'') MachinePrecision []
       = (Some (Symbol ''Global`c''), [])
   \<and> get_lookup_name (mk_List [MachineReal 1]) = ''System`List''
   \<and> get_value demo_list_rule (get_lookup_name (mk_List [MachineReal 1])) ''System`NValues''
        (N_request (mk_List [MachineReal 1]) MachinePrecision) [] = (Some (Integer 7), [])
   \<and> apply_other demo_list_rule (mk_List [MachineReal 1]) MachinePrecision []
       = (Some (mk_List [MachineReal 1]), [])"
  by (simp add: apply_other.simps requested_d_def MachinePrecision_def demo_def demo_no_nvalues_def
        demo_list_rule_def demo_nvalues_def N_request_def same_def mk_List_def)

text \<open>
  C1, amended. Let the precision be valid, and let \<open>expr\<close> be a symbol or a compound
  expression whose head is neither \<^verbatim>\<open>List\<close> nor \<^verbatim>\<open>Rule\<close>, with a resolvable name. Then
  \<^verbatim>\<open>N\<close> asks the override table of that name with the request \<^verbatim>\<open>N[expr, prec]\<close>. A
  replacement \<open>r\<close> that is not identical to the request is numericized in turn: the
  result is \<^verbatim>\<open>N[r, prec]\<close> evaluated by the engine. A replacement identical to the request
  is returned as it is, with no further evaluation, so this path ends there.
\<close>

theorem N_override:
  assumes prec: "requested_d E prec s = (Some d, s1)"
    and head: "get_head_name expr \<noteq> ''System`List''" "get_head_name expr \<noteq> ''System`Rule''"
    and not_number: "\<not> is_Number expr"
    and name: "get_lookup_name expr \<noteq> []"
    and override:
      "get_value E (get_lookup_name expr) ''System`NValues'' (N_request expr prec) s1 = (Some r, s2)"
  shows "apply_other E expr prec s =
           (if r \<noteq> N_request expr prec
            then (Some (fst (evaluate E (N_request r prec) s2)), snd (evaluate E (N_request r prec) s2))
            else (Some (N_request expr prec), s2))"
proof -
  have "\<not> is_MachineReal expr" using not_number by (cases expr) simp_all
  then show ?thesis
    using assms by (simp add: apply_other.simps [of E expr] same_def split: prod.splits)
qed

theorem N_override_witness:
  "requested_d demo MachinePrecision [] = (Some None, [])
   \<and> get_head_name (Symbol ''Global`e'') \<noteq> ''System`List''
   \<and> get_head_name (Symbol ''Global`e'') \<noteq> ''System`Rule''
   \<and> \<not> is_Number (Symbol ''Global`e'')
   \<and> get_lookup_name (Symbol ''Global`e'') \<noteq> []
   \<and> get_value demo (get_lookup_name (Symbol ''Global`e'')) ''System`NValues''
        (N_request (Symbol ''Global`e'') MachinePrecision) [] = (Some (Integer 6), [])
   \<and> Integer 6 \<noteq> N_request (Symbol ''Global`e'') MachinePrecision
   \<and> apply_other demo (Symbol ''Global`e'') MachinePrecision [] = (Some (MachineReal 6), [])"
proof -
  have a: "requested_d demo MachinePrecision [] = (Some None, [])"
    by (simp add: requested_d_def MachinePrecision_def)
  have b: "get_head_name (Symbol ''Global`e'') \<noteq> ''System`List''" by simp
  have c: "get_head_name (Symbol ''Global`e'') \<noteq> ''System`Rule''" by simp
  have d: "\<not> is_Number (Symbol ''Global`e'')" by simp
  have e: "get_lookup_name (Symbol ''Global`e'') \<noteq> []" by simp
  have f: "get_value demo (get_lookup_name (Symbol ''Global`e'')) ''System`NValues''
        (N_request (Symbol ''Global`e'') MachinePrecision) [] = (Some (Integer 6), [])"
    by (simp add: demo_def demo_nvalues_def)
  have g: "Integer 6 \<noteq> N_request (Symbol ''Global`e'') MachinePrecision"
    by (simp add: N_request_def)
  have h: "evaluate demo (N_request (Integer 6) MachinePrecision) [] = (MachineReal 6, [])"
    by (simp add: demo_def demo_evaluate_def N_request_def)
  show ?thesis
    using a b c d e f g N_override [OF a b c d e f] by (simp add: h)
qed

text \<open>
  C2. Let the precision be valid and \<open>Expression h ls\<close> a compound expression whose head is
  neither \<^verbatim>\<open>List\<close> nor \<^verbatim>\<open>Rule\<close> and for which the override table gives nothing. Then the
  result is a compound expression with as many leaves, whose head is \<^verbatim>\<open>N[h, prec]\<close>
  evaluated by the engine (before any leaf), and in which the leaf at position \<open>i\<close> is
  \<^verbatim>\<open>N[leaf, prec]\<close> evaluated by the engine when the position is selected, and the leaf
  itself otherwise. With \<^verbatim>\<open>NHoldAll\<close> on the head no position is selected; else with
  \<^verbatim>\<open>NHoldFirst\<close> every position but \<open>0\<close>; else with \<^verbatim>\<open>NHoldRest\<close> position \<open>0\<close> alone;
  else every position. The attributes are read in this order, as the claim lists them.
\<close>

theorem N_hold_attributes:
  assumes prec: "requested_d E prec s = (Some d, s1)"
    and head: "get_name h \<noteq> ''System`List''" "get_name h \<noteq> ''System`Rule''"
    and no_override:
      "(if get_lookup_name h \<noteq> []
        then get_value E (get_lookup_name h) ''System`NValues'' (N_request (Expression h ls) prec) s1
        else (None, s1)) = (None, s2)"
  shows "\<exists>head leaves s3 s4.
           apply_other E (Expression h ls) prec s = (Some (Expression head leaves), s4)
         \<and> evaluate E (N_request h prec) s2 = (head, s3)
         \<and> length leaves = length ls
         \<and> (\<forall>i < length ls.
              if (if ''System`NHoldAll'' \<in> get_attributes E h s2 then False
                  else if ''System`NHoldFirst'' \<in> get_attributes E h s2 then i \<noteq> 0
                  else if ''System`NHoldRest'' \<in> get_attributes E h s2 then i = 0
                  else True)
              then (\<exists>t. leaves ! i = fst (evaluate E (N_request (ls ! i) prec) t))
              else leaves ! i = ls ! i)"
proof -
  define A where "A = get_attributes E h s2"
  obtain head s3 where hd: "evaluate E (N_request h prec) s2 = (head, s3)"
    by (cases "evaluate E (N_request h prec) s2")
  obtain leaves s4 where lv: "eval_leaves E prec (eval_range A (length ls)) ls s3 = (leaves, s4)"
    by (cases "eval_leaves E prec (eval_range A (length ls)) ls s3")
  have run: "apply_other E (Expression h ls) prec s = (Some (Expression head leaves), s4)"
    using prec head no_override hd lv
    by (simp add: apply_other.simps [of E "Expression h ls"] A_def Let_def)
  have leaves: "leaves = fst (eval_leaves E prec (eval_range A (length ls)) ls s3)"
    by (simp add: lv)
  have len: "length leaves = length ls"
    by (simp add: leaves eval_leaves_length)
  have pos: "if i \<in> set (eval_range A (length ls))
             then (\<exists>t. leaves ! i = fst (evaluate E (N_request (ls ! i) prec) t))
             else leaves ! i = ls ! i" for i
    using eval_leaves_selected [OF eval_range_distinct, of A "length ls" ls i E prec s3]
      eval_leaves_untouched [of i "eval_range A (length ls)" E prec ls s3]
    by (auto simp: leaves dest: eval_range_bound)
  have "\<forall>i < length ls.
          if (if ''System`NHoldAll'' \<in> A then False
              else if ''System`NHoldFirst'' \<in> A then i \<noteq> 0
              else if ''System`NHoldRest'' \<in> A then i = 0
              else True)
          then (\<exists>t. leaves ! i = fst (evaluate E (N_request (ls ! i) prec) t))
          else leaves ! i = ls ! i"
    using pos eval_range_member [of _ "length ls" A] by metis
  with run hd len show ?thesis unfolding A_def by blast
qed


theorem N_hold_attributes_witness:
  "requested_d demo MachinePrecision [] = (Some None, [])
   \<and> get_name (Symbol ''Global`g'') \<noteq> ''System`List'' \<and> get_name (Symbol ''Global`g'') \<noteq> ''System`Rule''
   \<and> get_value demo ''Global`g'' ''System`NValues''
        (N_request (Expression (Symbol ''Global`g'') [Integer 1, Integer 1]) MachinePrecision) [] = (None, [])
   \<and> apply_other demo (Expression (Symbol ''Global`g'') [Integer 1, Integer 1]) MachinePrecision []
       = (Some (Expression (Symbol ''Global`g'') [MachineReal 1, Integer 1]), [])
   \<and> apply_other demo (Expression (Symbol ''Global`f'') [Symbol ''Global`a'', Symbol ''Global`b'']) MachinePrecision []
       = (Some (Expression (Symbol ''Global`f'') [Symbol ''Global`a'', Symbol ''Global`b'']), [])
   \<and> apply_other demo (Expression (Symbol ''Global`k'') [Symbol ''Global`a'', Symbol ''Global`a'']) MachinePrecision []
       = (Some (Expression (Symbol ''Global`k'') [Symbol ''Global`a'', MachineReal (109 / 10)]), [])
   \<and> apply_other demo (Expression (Symbol ''Global`h'') [Symbol ''Global`a'', Symbol ''Global`b'']) MachinePrecision []
       = (Some (Expression (Symbol ''Global`h'') [MachineReal (109 / 10), Symbol ''Global`b'']), [])"
proof -
  have a: "requested_d demo MachinePrecision [] = (Some None, [])"
    by (simp add: requested_d_def MachinePrecision_def)
  have b: "get_name (Symbol ''Global`g'') \<noteq> ''System`List''" by simp
  have c: "get_name (Symbol ''Global`g'') \<noteq> ''System`Rule''" by simp
  have d: "(if get_lookup_name (Symbol ''Global`g'') \<noteq> []
        then get_value demo (get_lookup_name (Symbol ''Global`g'')) ''System`NValues''
               (N_request (Expression (Symbol ''Global`g'') [Integer 1, Integer 1]) MachinePrecision) []
        else (None, [])) = (None, [])"
    by (simp add: demo_def demo_nvalues_def)
  have r1: "apply_other demo (Expression (Symbol ''Global`g'') [Integer 1, Integer 1]) MachinePrecision []
       = (Some (Expression (Symbol ''Global`g'') [MachineReal 1, Integer 1]), [])"
    by (simp add: apply_other.simps requested_d_def MachinePrecision_def demo_def demo_nvalues_def
          demo_attributes_def demo_evaluate_def eval_range_def N_request_def same_def)
  have r2: "apply_other demo (Expression (Symbol ''Global`f'') [Symbol ''Global`a'', Symbol ''Global`b'']) MachinePrecision []
       = (Some (Expression (Symbol ''Global`f'') [Symbol ''Global`a'', Symbol ''Global`b'']), [])"
    by (simp add: apply_other.simps requested_d_def MachinePrecision_def demo_def demo_nvalues_def
          demo_attributes_def demo_evaluate_def eval_range_def N_request_def same_def)
  have r3: "apply_other demo (Expression (Symbol ''Global`k'') [Symbol ''Global`a'', Symbol ''Global`a'']) MachinePrecision []
       = (Some (Expression (Symbol ''Global`k'') [Symbol ''Global`a'', MachineReal (109 / 10)]), [])"
    by (simp add: apply_other.simps requested_d_def MachinePrecision_def demo_def demo_nvalues_def
          demo_attributes_def demo_evaluate_def eval_range_def N_request_def same_def)
  have r4: "apply_other demo (Expression (Symbol ''Global`h'') [Symbol ''Global`a'', Symbol ''Global`b'']) MachinePrecision []
       = (Some (Expression (Symbol ''Global`h'') [MachineReal (109 / 10), Symbol ''Global`b'']), [])"
    by (simp add: apply_other.simps requested_d_def MachinePrecision_def demo_def demo_nvalues_def
          demo_attributes_def demo_evaluate_def eval_range_def N_request_def same_def)
  have d': "get_value demo ''Global`g'' ''System`NValues''
        (N_request (Expression (Symbol ''Global`g'') [Integer 1, Integer 1]) MachinePrecision) [] = (None, [])"
    using d by simp
  show ?thesis
    using N_hold_attributes [OF a b c d] a b c d' r1 r2 r3 r4 by simp
qed

text \<open>What the threading over a list returns when no leaf changes.\<close>

lemma apply_other_leaves_unchanged:
  "(\<And>x t. x \<in> set ls \<Longrightarrow> fst (apply_other E x prec t) = Some x) \<Longrightarrow>
     fst (apply_other_leaves E ls prec s) = ls"
proof (induction ls arbitrary: s)
  case Nil
  show ?case by simp
next
  case (Cons l ls)
  obtain r s' where r: "apply_other E l prec s = (r, s')" by (cases "apply_other E l prec s")
  with Cons.prems [of l s] have "r = Some l" by simp
  moreover have "fst (apply_other_leaves E ls prec s') = ls"
    using Cons.IH [of s'] Cons.prems by simp
  ultimately show ?case using r by (cases "apply_other_leaves E ls prec s'") simp
qed

lemma machine_numeric_unchanged:
  assumes valid: "\<forall>t. fst (requested_d E prec t) \<noteq> None"
  shows "machine_numeric e \<Longrightarrow> fst (apply_other E e prec s) = Some e"
proof (induction e arbitrary: s)
  case (MachineReal x)
  obtain d s1 where "requested_d E prec s = (Some d, s1)"
    using valid by (cases "requested_d E prec s") (metis fst_conv not_Some_eq)
  then show ?case by (simp add: apply_other.simps)
next
  case (Expression h ls)
  obtain d s1 where d: "requested_d E prec s = (Some d, s1)"
    using valid by (cases "requested_d E prec s") (metis fst_conv not_Some_eq)
  from Expression.prems have h: "h = Symbol ''System`List'' \<or> h = Symbol ''System`Rule''"
    and ls: "list_all machine_numeric ls" by simp_all
  have "fst (apply_other_leaves E ls prec s1) = ls"
    using Expression.IH(2) ls by (intro apply_other_leaves_unchanged) (simp add: list_all_iff)
  with d h show ?case
    by (auto simp: apply_other.simps [of E "Expression h ls"] split: prod.splits)
qed simp_all

text \<open>
  C3, as the claim states it, fails in the small session, where \<^verbatim>\<open>m\<close> holds all its
  arguments and \<^verbatim>\<open>N[m] = h\<close>, \<^verbatim>\<open>N[a] = 10.9\<close>: numericizing \<^verbatim>\<open>m[a]\<close> gives \<^verbatim>\<open>h[a]\<close>, and
  numericizing that again gives \<^verbatim>\<open>h[10.9]\<close>.
\<close>

theorem N_not_idempotent_counterexample:
  "apply_other demo (Expression (Symbol ''Global`m'') [Symbol ''Global`a'']) MachinePrecision []
     = (Some (Expression (Symbol ''Global`h'') [Symbol ''Global`a'']), [])
   \<and> apply_other demo (Expression (Symbol ''Global`h'') [Symbol ''Global`a'']) MachinePrecision []
     = (Some (Expression (Symbol ''Global`h'') [MachineReal (109 / 10)]), [])
   \<and> Expression (Symbol ''Global`h'') [MachineReal (109 / 10)]
       \<noteq> Expression (Symbol ''Global`h'') [Symbol ''Global`a'']"
  by (simp add: apply_other.simps requested_d_def MachinePrecision_def demo_def
        demo_nvalues_def demo_attributes_def demo_evaluate_def eval_range_def N_request_def same_def)

text \<open>
  C3, amended. At a precision that is valid throughout, a machine real is returned
  unchanged, and so is every expression built from machine reals by \<^verbatim>\<open>List\<close> and \<^verbatim>\<open>Rule\<close>;
  numericizing the result of such a call again returns it once more. (For any other
  expression the second pass asks the engine about the new head and leaves, and nothing
  is claimed.)
\<close>

theorem N_machine_real_unchanged:
  assumes "\<forall>t. fst (requested_d E prec t) \<noteq> None"
    and "machine_numeric e"
  shows "fst (apply_other E (MachineReal x) prec s) = Some (MachineReal x)
       \<and> fst (apply_other E e prec s) = Some e
       \<and> (\<forall>r s'. apply_other E e prec s = (Some r, s') \<longrightarrow> fst (apply_other E r prec s') = Some r)"
  using assms machine_numeric_unchanged [OF assms(1), of "MachineReal x"]
    machine_numeric_unchanged [OF assms(1), of e]
  by (metis fst_conv machine_numeric.simps(1) option.inject)

theorem N_machine_real_unchanged_witness:
  "(\<forall>t. fst (requested_d demo (Integer 30) t) \<noteq> None)
   \<and> machine_numeric (mk_List [MachineReal (3 / 2), mk_List [MachineReal 2]])
   \<and> fst (apply_other demo (MachineReal (3 / 2)) (Integer 30) []) = Some (MachineReal (3 / 2))
   \<and> fst (apply_other demo (mk_List [MachineReal (3 / 2), mk_List [MachineReal 2]]) (Integer 30) [])
       = Some (mk_List [MachineReal (3 / 2), mk_List [MachineReal 2]])"
proof -
  have a: "\<forall>t. fst (requested_d demo (Integer 30) t) \<noteq> None"
    by (simp add: requested_d_def demo_def demo_float_value_def)
  have b: "machine_numeric (mk_List [MachineReal (3 / 2), mk_List [MachineReal 2]])"
    by (simp add: mk_List_def)
  show ?thesis
    using a b N_machine_real_unchanged [OF a b, of "3 / 2" "[]"] by simp
qed

section \<open>Properties of Chop\<close>

text \<open>
  C5. A real leaf given to \<^verbatim>\<open>chop\<close> directly is compared with the tolerance \<open>delta\<close> of the
  call, but the leaves of a compound expression are chopped by calls that pass no
  tolerance and so use the default \<^verbatim>\<open>10.0 ** (-10.0)\<close>: with \<open>delta = 1/64\<close> the machine
  real \<open>1/1024\<close> becomes the integer zero on its own and is retained inside a list.
\<close>

theorem chop_leaves_default_delta:
  "chop float_of (1 / 64) (MachineReal (1 / 1024)) = Integer 0
   \<and> chop float_of (1 / 64) (mk_List [MachineReal (1 / 1024)]) = mk_List [MachineReal (1 / 1024)]"
  by (simp add: mk_List_def is_within_def default_delta_def)

section \<open>Properties of Hash\<close>

text \<open>
  C9, as the claim states it, fails at \<^verbatim>\<open>Hash[{a, b, c}, "xyzstr"]\<close>: the call is left
  unevaluated, but no failure is reported. The list of the messages printed is as empty
  after the call as before it (the docstring shows the call returned with no message
  line), where \<^verbatim>\<open>N\<close> with a bad precision prints its message \<^verbatim>\<open>precbd\<close>.
\<close>

theorem Hash_silent_counterexample:
  "Hash_apply demo_digests (\<lambda>e. [])
     (mk_List [Symbol ''Global`a'', Symbol ''Global`b'', Symbol ''Global`c'']) ''xyzstr'' ([] :: session)
     = (Inr None, [])
   \<and> snd (apply_other demo (Symbol ''System`Pi'') (String ''abc'') [])
       = [(''N'', ''precbd'', [String ''abc''])]"
  by (simp add: Hash_apply_def compute_def supported_hashes_def apply_other.simps requested_d_def
        demo_def demo_float_value_def)

text \<open>
  C9, amended. For a name outside the table of supported algorithms (\<^verbatim>\<open>Adler32\<close>, \<^verbatim>\<open>CRC32\<close>,
  \<^verbatim>\<open>MD5\<close>, \<^verbatim>\<open>SHA\<close>, \<^verbatim>\<open>SHA224\<close>, \<^verbatim>\<open>SHA256\<close>, \<^verbatim>\<open>SHA384\<close>, \<^verbatim>\<open>SHA512\<close>) the rule
  \<^verbatim>\<open>Hash[expr, name]\<close> returns normally with no result, for every expression: the call
  stays unevaluated, no digest is produced and no exception is raised; and it does so
  silently, the session left as it was.
\<close>

theorem Hash_unknown_algorithm:
  assumes "name \<notin> {''Adler32'', ''CRC32'', ''MD5'', ''SHA'', ''SHA224'', ''SHA256'', ''SHA384'', ''SHA512''}"
  shows "Hash_apply D user_hash expr name s = (Inr None, s)"
  using assms by (simp add: Hash_apply_def compute_def supported_hashes_def)

theorem Hash_unknown_algorithm_witness:
  "''xyzstr'' \<notin> {''Adler32'', ''CRC32'', ''MD5'', ''SHA'', ''SHA224'', ''SHA256'', ''SHA384'', ''SHA512''}
   \<and> Hash_apply demo_digests (\<lambda>e. [])
       (mk_List [Symbol ''Global`a'', Symbol ''Global`b'', Symbol ''Global`c'']) ''xyzstr''
       [(''N'', ''precbd'', [String ''abc''])]
     = (Inr None, [(''N'', ''precbd'', [String ''abc''])])"
  using Hash_unknown_algorithm [of "''xyzstr''"] by simp

section \<open>Properties of Precision\<close>

text \<open>
  C6, as the claim states it, fails at the machine real zero: it is inexact and exactly
  zero, and \<^verbatim>\<open>Precision[0.0]\<close> is \<^verbatim>\<open>MachinePrecision\<close>, not the zero result \<^verbatim>\<open>Real(0)\<close>.
\<close>

theorem Precision_machine_zero_counterexample:
  "is_inexact demo_numbers (MachineReal 0) \<and> is_zero (MachineReal 0)
   \<and> Precision demo_numbers (MachineReal 0) = Symbol ''System`MachinePrecision''
   \<and> Precision demo_numbers (MachineReal 0) \<noteq> Real 0"
  by (simp add: Precision_def is_inexact_def Real_def)

text \<open>
  C6, amended. Every inexact value that is no machine number and is exactly zero, in
  particular a precision real zero of any precision \<open>p\<close>, has the precision \<^verbatim>\<open>Real(0)\<close>,
  whatever precision it was given. This zero result differs from the symbol
  \<^verbatim>\<open>MachinePrecision\<close>, which is the precision of every machine real (zero included), and
  from the digit count \<^verbatim>\<open>Real(dps(q))\<close> of a nonzero precision real of precision \<open>q\<close>,
  as long as that count is not zero.
\<close>

theorem Precision_zero:
  "(\<not> MachineNumberQ z \<and> is_inexact C z \<and> is_zero z \<longrightarrow> Precision C z = Real 0)
   \<and> Precision C (PrecisionReal 0 p) = Real 0
   \<and> Precision C (MachineReal x) = Symbol ''System`MachinePrecision''
   \<and> Real 0 \<noteq> Symbol ''System`MachinePrecision''
   \<and> (x \<noteq> 0 \<and> dps C q \<noteq> 0 \<longrightarrow>
        Precision C (PrecisionReal x q) = Real (int (dps C q))
        \<and> Precision C (PrecisionReal x q) \<noteq> Real 0)"
  by (simp add: Precision_def Precision_apply_def is_inexact_def Real_def)

theorem Precision_zero_witness:
  "\<not> MachineNumberQ (PrecisionReal 0 120) \<and> is_inexact demo_numbers (PrecisionReal 0 120)
   \<and> is_zero (PrecisionReal 0 120)
   \<and> Precision demo_numbers (PrecisionReal 0 120) = Real 0
   \<and> (1 / 9 :: rat) \<noteq> 0 \<and> dps demo_numbers 100 \<noteq> 0
   \<and> Precision demo_numbers (PrecisionReal (1 / 9) 100) = Real 30"
  using Precision_zero [where z = "PrecisionReal 0 120" and C = demo_numbers and x = "1 / 9" and q = 100]
  by (simp add: demo_numbers_def is_inexact_def)

section \<open>Properties of Round\<close>









section \<open>Properties of NumericQ\<close>

text \<open>
  C8, as the claim states it, fails at the symbol \<^verbatim>\<open>Pi\<close>: it is an atom and no numeric
  value, and it is numeric, as \<^verbatim>\<open>NumericQ[Sqrt[Pi]] = True\<close> of the docstring needs
  (\<^verbatim>\<open>Sqrt[Pi]\<close> is \<^verbatim>\<open>Power[Pi, 1/2]\<close>, and \<^verbatim>\<open>test\<close> asks every leaf).
\<close>

theorem NumericQ_atom_counterexample:
  "is_atom (Symbol ''System`Pi'') \<and> \<not> is_Number (Symbol ''System`Pi'')
   \<and> test demo [] (Symbol ''System`Pi'')
   \<and> NumericQ_apply demo (Expression (Symbol ''System`Power'') [Symbol ''System`Pi'', Rational (1 / 2)]) []
       = Symbol ''System`True''"
  by (simp add: demo_def NumericQ_apply_def demo_attributes_def)

text \<open>
  C8, amended. A compound expression is numeric if and only if the name of its head
  carries the attribute \<^verbatim>\<open>NumericFunction\<close> and every leaf is numeric in turn. An atomic
  numeric value is numeric; a symbol is numeric exactly when it is classified as a
  numeric constant, as \<^verbatim>\<open>Pi\<close> is; any other atom, such as a string, is not. In particular
  \<open>1\<close> and \<open>2\<close> are numeric, and for a symbol \<open>f\<close> without the attribute
  \<^verbatim>\<open>NumericQ[f[1, 2]]\<close> is \<^verbatim>\<open>False\<close> all the same.
\<close>

theorem NumericQ_test:
  "test E s (Expression h ls)
     = (''System`NumericFunction'' \<in> name_attributes E (get_name h) s \<and> (\<forall>leaf \<in> set ls. test E s leaf))
   \<and> (is_Number a \<longrightarrow> test E s a)
   \<and> test E s (Symbol n) = (n = ''System`Pi'' \<or> n \<in> numeric_constants E)
   \<and> \<not> test E s (String x)
   \<and> (is_atom a \<and> \<not> is_Number a \<and> (\<forall>n. a = Symbol n \<longrightarrow> n \<noteq> ''System`Pi'' \<and> n \<notin> numeric_constants E)
        \<longrightarrow> \<not> test E s a)
   \<and> test E s (Integer 1) \<and> test E s (Integer 2)
   \<and> (''System`NumericFunction'' \<notin> name_attributes E f s \<longrightarrow>
        NumericQ_apply E (Expression (Symbol f) [Integer 1, Integer 2]) s = Symbol ''System`False'')"
  by (cases a) (simp_all add: list_all_iff NumericQ_apply_def)

theorem NumericQ_test_witness:
  "is_Number (Rational (1 / 2)) \<and> test demo [] (Rational (1 / 2))
   \<and> is_atom (Symbol ''Global`aa'') \<and> \<not> is_Number (Symbol ''Global`aa'')
   \<and> ''Global`aa'' \<noteq> ''System`Pi'' \<and> ''Global`aa'' \<notin> numeric_constants demo
   \<and> \<not> test demo [] (Symbol ''Global`aa'')
   \<and> ''System`NumericFunction'' \<notin> name_attributes demo ''Global`f'' []
   \<and> NumericQ_apply demo (Expression (Symbol ''Global`f'') [Integer 1, Integer 2]) [] = Symbol ''System`False''
   \<and> test demo [] (Integer 1) \<and> test demo [] (Integer 2)
   \<and> test demo [] (Expression (Symbol ''System`Plus'') [Integer 1, Integer 2])
   \<and> \<not> test demo [] (String ''abc'')"
  using NumericQ_test [of demo "[]" "Symbol ''System`Plus''" "[Integer 1, Integer 2]"
      "Rational (1 / 2)" _ _ "''Global`f''"]
    NumericQ_test [of demo "[]" _ _ "Symbol ''Global`aa''"]
  by (simp add: demo_def demo_attributes_def)

section \<open>Properties of IntegerDigits\<close>

lemma digit_list_range: "d \<in> set (digit_list x base) \<Longrightarrow> 0 \<le> d \<and> d < int base"
proof (induction x base rule: digit_list.induct)
  case (1 x base)
  show ?case
  proof (cases "x = 0 \<or> base < 2")
    case True
    with "1.prems" show ?thesis by (simp add: digit_list.simps [of x base])
  next
    case False
    with "1.prems" have "d \<in> set (digit_list (x div base) base) \<or> d = int (x mod base)"
      by (auto simp: digit_list.simps [of x base])
    with False "1.IH" show ?thesis by auto
  qed
qed

lemma base_value_append:
  "base_value b (xs @ ys) = base_value b xs * b ^ length ys + base_value b ys"
proof (induction ys rule: rev_induct)
  case Nil
  show ?case by (simp add: base_value_def)
next
  case (snoc y ys)
  have "base_value b (xs @ ys @ [y]) = base_value b (xs @ ys) * b + y"
    by (simp add: base_value_def)
  also have "\<dots> = (base_value b xs * b ^ length ys + base_value b ys) * b + y"
    by (simp add: snoc.IH)
  also have "\<dots> = base_value b xs * b ^ length (ys @ [y]) + base_value b (ys @ [y])"
    by (simp add: base_value_def algebra_simps)
  finally show ?case by simp
qed

lemma base_value_digit_list: "2 \<le> base \<Longrightarrow> base_value (int base) (digit_list x base) = int x"
proof (induction x base rule: digit_list.induct)
  case (1 x base)
  show ?case
  proof (cases "x = 0")
    case True
    then show ?thesis by (simp add: digit_list.simps [of 0 base] base_value_def)
  next
    case False
    with "1.prems" have ih: "base_value (int base) (digit_list (x div base) base) = int (x div base)"
      using "1.IH" by simp
    from False "1.prems" have "digit_list x base = digit_list (x div base) base @ [int (x mod base)]"
      by (simp add: digit_list.simps [of x base])
    then have "base_value (int base) (digit_list x base)
                 = int (x div base) * int base + int (x mod base)"
      using ih by (simp add: base_value_append) (simp add: base_value_def)
    also have "\<dots> = int x"
      by (metis of_nat_add of_nat_mult div_mult_mod_eq)
    finally show ?thesis .
  qed
qed

lemma base_value_bounds:
  "\<forall>d \<in> set ds. 0 \<le> d \<and> d < b \<Longrightarrow> 0 \<le> base_value b ds \<and> base_value b ds < b ^ length ds"
proof (induction ds rule: rev_induct)
  case Nil
  show ?case by (simp add: base_value_def)
next
  case (snoc d ds)
  then have ih: "0 \<le> base_value b ds" "base_value b ds < b ^ length ds"
    and d: "0 \<le> d" "d < b" by auto
  have v: "base_value b (ds @ [d]) = base_value b ds * b + d" by (simp add: base_value_def)
  from d have b: "0 < b" by simp
  from ih(2) have "base_value b ds + 1 \<le> b ^ length ds" by simp
  with b have "(base_value b ds + 1) * b \<le> b ^ length ds * b" by (simp add: mult_right_mono)
  with d have "base_value b ds * b + d < b ^ length ds * b" by (simp add: algebra_simps)
  moreover from ih(1) b d have "0 \<le> base_value b ds * b + d" by simp
  ultimately show ?case by (simp add: v mult.commute)
qed

lemma base_value_replicate: "base_value b (replicate m 0 @ ds) = base_value b ds"
proof -
  have "base_value b (replicate m 0) = 0" by (induction m) (simp_all add: base_value_def)
  then show ?thesis by (simp add: base_value_append)
qed


text \<open>
  C10. For an integer \<open>n\<close>, an integer base \<open>b > 1\<close> and an integer length \<open>L \<ge> 0\<close>,
  \<^verbatim>\<open>IntegerDigits[n, b, L]\<close> returns, with no message, a list of exactly \<open>L\<close> digits, each
  between \<open>0\<close> and \<open>b - 1\<close>: the last \<open>L\<close> of the digits of \<open>n\<close> when there are at least \<open>L\<close>
  (the leftmost are dropped), the digits of \<open>n\<close> behind zeros otherwise, and the empty
  list for \<open>L = 0\<close>. Read in base \<open>b\<close> the list is \<open>\<bar>n\<bar> mod b ^ L\<close>, and the result for \<open>- n\<close>
  is that for \<open>n\<close>.
\<close>

theorem IntegerDigits_length:
  assumes "1 < b" and "0 \<le> L"
  shows "\<exists>ds. IntegerDigits_apply_len E (Integer n) (Integer b) (Integer L) s
               = (Some (Expression (Symbol ''System`List'') (map Integer ds)), s)
            \<and> length ds = nat L
            \<and> ds = (let digits = convert_int_to_digit_list n b
                     in if length digits \<ge> nat L then drop (length digits - nat L) digits
                        else replicate (nat L - length digits) 0 @ digits)
            \<and> (\<forall>d \<in> set ds. 0 \<le> d \<and> d < b)
            \<and> base_value b ds = \<bar>n\<bar> mod b ^ nat L
            \<and> (L = 0 \<longrightarrow> ds = [])
            \<and> IntegerDigits_apply_len E (Integer (- n)) (Integer b) (Integer L) s
                = IntegerDigits_apply_len E (Integer n) (Integer b) (Integer L) s"
proof -
  define digits where "digits = convert_int_to_digit_list n b"
  define ds where "ds = (if length digits \<ge> nat L then drop (length digits - nat L) digits
                         else replicate (nat L - length digits) 0 @ digits)"
  have neg: "convert_int_to_digit_list (- n) b = digits"
    by (simp add: digits_def convert_int_to_digit_list_def)
  have run: "\<And>m. convert_int_to_digit_list m b = digits \<Longrightarrow>
      IntegerDigits_apply_len E (Integer m) (Integer b) (Integer L) s
        = (Some (Expression (Symbol ''System`List'') (map Integer ds)), s)"
    using assms
    by (auto simp: IntegerDigits_apply_len_def IntegerDigits_apply_def Let_def ds_def)
  have b2: "2 \<le> nat b" using assms by simp
  have range: "\<forall>d \<in> set digits. 0 \<le> d \<and> d < b"
  proof
    fix d assume "d \<in> set digits"
    then show "0 \<le> d \<and> d < b"
      using digit_list_range [of d "nat \<bar>n\<bar>" "nat b"] assms
      by (auto simp: digits_def convert_int_to_digit_list_def split: if_splits)
  qed
  have val: "base_value b digits = \<bar>n\<bar>"
    using base_value_digit_list [OF b2, of "nat \<bar>n\<bar>"] assms
    by (auto simp: digits_def convert_int_to_digit_list_def base_value_def)
  have len: "length ds = nat L" by (simp add: ds_def)
  have range': "\<forall>d \<in> set ds. 0 \<le> d \<and> d < b"
    using range assms by (auto simp: ds_def dest: in_set_dropD)
  have value': "base_value b ds = \<bar>n\<bar> mod b ^ nat L"
  proof (cases "length digits \<ge> nat L")
    case True
    then have ds: "ds = drop (length digits - nat L) digits" by (simp add: ds_def)
    have "digits = take (length digits - nat L) digits @ ds" by (simp add: ds)
    then have "base_value b digits
                 = base_value b (take (length digits - nat L) digits) * b ^ nat L + base_value b ds"
      using base_value_append [of b "take (length digits - nat L) digits" ds] len by simp
    moreover have "0 \<le> base_value b ds \<and> base_value b ds < b ^ nat L"
      using base_value_bounds [OF range'] len by simp
    ultimately show ?thesis using val by (simp add: mod_pos_pos_trivial)
  next
    case False
    then have ds: "ds = replicate (nat L - length digits) 0 @ digits" by (simp add: ds_def)
    have "0 \<le> base_value b digits \<and> base_value b digits < b ^ length digits"
      using base_value_bounds [OF range] .
    moreover have "b ^ length digits \<le> b ^ nat L"
      using False assms by (intro power_increasing) auto
    ultimately have "\<bar>n\<bar> mod b ^ nat L = \<bar>n\<bar>" using val by (simp add: mod_pos_pos_trivial)
    then show ?thesis using val by (simp add: ds base_value_replicate)
  qed
  have zero: "L = 0 \<longrightarrow> ds = []" by (simp add: ds_def)
  show ?thesis
    using run [OF neg] run [of n] len range' value' zero
    by (intro exI [of _ ds]) (simp add: ds_def digits_def Let_def)
qed

theorem IntegerDigits_length_witness:
  "(1::int) < 10 \<and> (0::int) \<le> 5
   \<and> IntegerDigits_apply_len demo (Integer 1234) (Integer 10) (Integer 5) []
       = (Some (mk_List [Integer 0, Integer 1, Integer 2, Integer 3, Integer 4]), [])
   \<and> IntegerDigits_apply_len demo (Integer (- 76543)) (Integer 10) (Integer 3) []
       = (Some (mk_List [Integer 5, Integer 4, Integer 3]), [])
   \<and> IntegerDigits_apply_len demo (Integer 76543) (Integer 10) (Integer 0) []
       = (Some (mk_List []), [])"
proof -
  have d1: "convert_int_to_digit_list 1234 10 = [1, 2, 3, 4]"
    by (simp add: convert_int_to_digit_list_def digit_list.simps)
  have d2: "convert_int_to_digit_list (- 76543) 10 = [7, 6, 5, 4, 3]"
    by (simp add: convert_int_to_digit_list_def digit_list.simps)
  show ?thesis
    using IntegerDigits_length [of 10 5 demo 1234 "[]"] d1 d2
    by (simp add: IntegerDigits_apply_len_def IntegerDigits_apply_def mk_List_def)
qed

end
